theory Spec2Isabelle
  imports Complex_Main
begin

section \<open>Numbers\<close>

text \<open>
  The source computes on JavaScript numbers. A finite number is modelled by a real
  number, so the arithmetic below is the arithmetic of the source's expressions without
  the rounding error of binary floating point. The three non-finite values appear where
  the source can produce or receive them: as the result of \<^verbatim>\<open>parseFloat\<close>, and
  as the product of a number with a value that is not a number.
\<close>

datatype number = NaN | PosInf | NegInf | Fin real

text \<open>\<^verbatim>\<open>Math.round(x)\<close>: the nearest integer, a tie going up.\<close>

definition Math_round :: "real \<Rightarrow> real" where
  "Math_round x = of_int \<lfloor>x + 1 / 2\<rfloor>"

fun Math_round_number :: "number \<Rightarrow> number" where
  "Math_round_number (Fin x) = Fin (Math_round x)"
| "Math_round_number NaN = NaN"
| "Math_round_number PosInf = PosInf"
| "Math_round_number NegInf = NegInf"

text \<open>
  The value read from a property of an object literal whose own properties are numbers:
  the own property, or what the literal inherits from \<^verbatim>\<open>Object.prototype\<close>
  (a function or an object), or \<^verbatim>\<open>undefined\<close>.
\<close>

datatype jsval = Undefined | NumV real | ObjV

definition Object_prototype_names :: "string list" where
  "Object_prototype_names =
     [''constructor'', ''__proto__'', ''hasOwnProperty'', ''isPrototypeOf'',
      ''propertyIsEnumerable'', ''toLocaleString'', ''toString'', ''valueOf'',
      ''__defineGetter__'', ''__defineSetter__'', ''__lookupGetter__'',
      ''__lookupSetter__'']"

definition get_property :: "(string \<times> real) list \<Rightarrow> string \<Rightarrow> jsval" where
  "get_property obj key =
     (case map_of obj key of
        Some v \<Rightarrow> NumV v
      | None \<Rightarrow> if key \<in> set Object_prototype_names then ObjV else Undefined)"

fun truthy :: "jsval \<Rightarrow> bool" where
  "truthy Undefined = False"
| "truthy (NumV x) = (x \<noteq> 0)"
| "truthy ObjV = True"

text \<open>\<^verbatim>\<open>a || b\<close>\<close>

definition js_or :: "jsval \<Rightarrow> jsval \<Rightarrow> jsval" where
  "js_or a b = (if truthy a then a else b)"

text \<open>\<^verbatim>\<open>x * v\<close> for a finite number \<open>x\<close>: not a number unless \<open>v\<close> is one.\<close>

fun times :: "real \<Rightarrow> jsval \<Rightarrow> number" where
  "times x (NumV m) = Fin (x * m)"
| "times x Undefined = NaN"
| "times x ObjV = NaN"

section \<open>Metabolic calculator\<close>

subsection \<open>The user model: \<^verbatim>\<open>generateBMR\<close>, \<^verbatim>\<open>generateTDEE\<close>\<close>

record Measure =
  m_value :: real
  m_unit :: string

text \<open>
  \<open>dateOfBirth\<close> is the full year of the date of birth: the only part of the date that
  \<^verbatim>\<open>generateBMR\<close> reads.
\<close>

record IUserProfile =
  dateOfBirth :: int
  gender :: string
  height :: Measure
  weight :: Measure
  activityLevel :: string

text \<open>
  \<open>thisYear\<close> is \<^verbatim>\<open>new Date().getFullYear()\<close> at the time of the call.
\<close>

definition weightKg :: "IUserProfile \<Rightarrow> real" where
  "weightKg p =
     (if m_unit (weight p) = ''kg'' then m_value (weight p) else m_value (weight p) * 0.453592)"

definition heightCm :: "IUserProfile \<Rightarrow> real" where
  "heightCm p =
     (if m_unit (height p) = ''cm'' then m_value (height p) else m_value (height p) * 2.54)"

definition generateBMR :: "int \<Rightarrow> IUserProfile \<Rightarrow> real" where
  "generateBMR thisYear p =
     (let age = of_int (thisYear - dateOfBirth p);
          bmr = (if gender p = ''male''
                 then 10 * weightKg p + 6.25 * heightCm p - 5 * age + 5
                 else 10 * weightKg p + 6.25 * heightCm p - 5 * age - 161)
      in Math_round bmr)"

definition multipliers :: "(string \<times> real) list" where
  "multipliers =
     [(''sedentary'', 1.2), (''light'', 1.375), (''moderate'', 1.55),
      (''active'', 1.725), (''very_active'', 1.9)]"

definition generateTDEE :: "int \<Rightarrow> IUserProfile \<Rightarrow> number" where
  "generateTDEE thisYear p =
     (let bmr = generateBMR thisYear p
      in Math_round_number (times bmr (get_property multipliers (activityLevel p))))"

subsection \<open>The client: \<^verbatim>\<open>calculateBMR\<close>, \<^verbatim>\<open>calculateTDEE\<close>\<close>

definition calculateBMR :: "real \<Rightarrow> real \<Rightarrow> real \<Rightarrow> string \<Rightarrow> real" where
  "calculateBMR w h age g =
     (if g = ''male''
      then 10 * w + 6.25 * h - 5 * age + 5
      else 10 * w + 6.25 * h - 5 * age - 161)"

definition calculateTDEE :: "real \<Rightarrow> string \<Rightarrow> number" where
  "calculateTDEE bmr level =
     Math_round_number (times bmr (js_or (get_property multipliers level) (NumV 1.2)))"

subsection \<open>Macro percentages, recomputed before a user is saved\<close>

record MacroTargets =
  target_protein :: real
  target_carbohydrates :: real
  target_fat :: real

record MacroPercentages =
  pct_protein :: real
  pct_carbohydrates :: real
  pct_fat :: real

record IUserGoals =
  dailyCalories :: real
  macroTargets :: MacroTargets
  macroPercentages :: MacroPercentages


section \<open>Nutrition records\<close>

record INutrition =
  calories :: real
  protein :: real
  carbohydrates :: real
  fat :: real
  fiber :: real
  sugar :: real
  sodium :: real
  potassium :: real
  calcium :: real
  iron :: real



section \<open>Nutrition scaler: \<^verbatim>\<open>getMockNutritionData\<close>\<close>





section \<open>Food details: the handler of \<^verbatim>\<open>foods/[id]\<close>\<close>


text \<open>The error responses of the two handlers, by their \<open>code\<close>.\<close>

datatype error =
    MethodNotAllowed
  | NotAuthenticated
  | MissingId
  | InvalidId
  | InvalidAmount
  | FoodNotFound
  | RateLimitExceeded
  | RequestFailed
  | ValidationFailed
  | UserNotFound
  | DatabaseValidationFailed



text \<open>
  \<open>parseInt\<close> and \<open>parseFloat\<close> are the functions of the language;
  \<open>getFoodNutrition\<close> is the nutrition service, which returns the food or throws an
  error with a message. The handler's \<^verbatim>\<open>catch\<close> maps the message to a response.
\<close>



section \<open>Goal progress\<close>

record IGoalProgress =
  target :: real
  actual :: real
  percentage :: real
  remaining :: real

definition calculateGoalProgress :: "real \<Rightarrow> real \<Rightarrow> IGoalProgress" where
  "calculateGoalProgress act tgt =
     \<lparr>target = tgt,
      actual = Math_round (act * 100) / 100,
      percentage = (if tgt > 0 then Math_round ((act / tgt) * 100) else 0),
      remaining = max 0 (tgt - act)\<rparr>"

record GoalProgress =
  gp_calories :: IGoalProgress
  gp_protein :: IGoalProgress
  gp_carbohydrates :: IGoalProgress
  gp_fat :: IGoalProgress

text \<open>The \<open>goalProgress\<close> the meal handler builds from the daily totals and the goals.\<close>

definition evaluateProgress :: "INutrition \<Rightarrow> IUserGoals \<Rightarrow> GoalProgress" where
  "evaluateProgress totals goals =
     \<lparr>gp_calories = calculateGoalProgress (calories totals) (dailyCalories goals),
      gp_protein = calculateGoalProgress (protein totals) (target_protein (macroTargets goals)),
      gp_carbohydrates =
        calculateGoalProgress (carbohydrates totals) (target_carbohydrates (macroTargets goals)),
      gp_fat = calculateGoalProgress (fat totals) (target_fat (macroTargets goals))\<rparr>"

section \<open>Meal entries\<close>

record MealTotals =
  total_calories :: real
  total_protein :: real
  total_carbohydrates :: real
  total_fat :: real
  total_fiber :: real

record IFood =
  spoonacularId :: "real option"
  customFoodId :: "string option"
  name :: string
  amount :: real
  unit :: string
  nutritionPer100g :: INutrition
  actualNutrition :: INutrition
  addedAt :: int
  isCustomFood :: bool

record IMeal =
  mealType :: string
  mealName :: "string option"
  foods :: "IFood list"
  mealTotals :: MealTotals

text \<open>
  A date is its time value, in milliseconds; the body of a request carries a date string
  that parses.
\<close>

record IMealEntry =
  userId :: string
  date :: int
  meals :: "IMeal list"
  dailyTotals :: INutrition
  goalProgress :: GoalProgress

subsection \<open>The \<^verbatim>\<open>pre('save')\<close> hook of the meal entry schema\<close>

text \<open>\<^verbatim>\<open>a || b\<close> on numbers.\<close>

definition num_or :: "real \<Rightarrow> real \<Rightarrow> real" where
  "num_or a b = (if a \<noteq> 0 then a else b)"

definition calculatedTotals :: "IFood list \<Rightarrow> MealTotals" where
  "calculatedTotals fs =
     foldl (\<lambda>totals food.
        \<lparr>total_calories = total_calories totals + calories (actualNutrition food),
         total_protein = total_protein totals + protein (actualNutrition food),
         total_carbohydrates = total_carbohydrates totals + carbohydrates (actualNutrition food),
         total_fat = total_fat totals + fat (actualNutrition food),
         total_fiber = total_fiber totals + fiber (actualNutrition food)\<rparr>)
       \<lparr>total_calories = 0, total_protein = 0, total_carbohydrates = 0, total_fat = 0,
        total_fiber = 0\<rparr> fs"

definition calculatedDailyTotals :: "IMeal list \<Rightarrow> INutrition" where
  "calculatedDailyTotals ms =
     foldl (\<lambda>totals meal.
        \<lparr>calories = calories totals + total_calories (mealTotals meal),
         protein = protein totals + total_protein (mealTotals meal),
         carbohydrates = carbohydrates totals + total_carbohydrates (mealTotals meal),
         fat = fat totals + total_fat (mealTotals meal),
         fiber = fiber totals + total_fiber (mealTotals meal),
         sugar = num_or (sugar totals) 0,
         sodium = num_or (sodium totals) 0,
         potassium = num_or (potassium totals) 0,
         calcium = num_or (calcium totals) 0,
         iron = num_or (iron totals) 0\<rparr>)
       \<lparr>calories = 0, protein = 0, carbohydrates = 0, fat = 0, fiber = 0, sugar = 0,
        sodium = 0, potassium = 0, calcium = 0, iron = 0\<rparr> ms"

definition pre_save :: "IMealEntry \<Rightarrow> IMealEntry" where
  "pre_save e =
     (let ms = map (\<lambda>meal. meal\<lparr>mealTotals := calculatedTotals (foods meal)\<rparr>) (meals e)
      in e\<lparr>meals := ms, dailyTotals := calculatedDailyTotals ms\<rparr>)"

subsection \<open>The request body and \<^verbatim>\<open>mealSchema\<close>\<close>

record FoodInput =
  in_spoonacularId :: "real option"
  in_customFoodId :: "string option"
  in_name :: string
  in_amount :: real
  in_unit :: string
  in_nutritionPer100g :: INutrition
  in_actualNutrition :: INutrition
  in_isCustomFood :: "bool option"

record MealBody =
  body_date :: int
  body_mealType :: string
  body_mealName :: "string option"
  body_foods :: "FoodInput list"

definition mealTypes :: "string list" where
  "mealTypes = [''breakfast'', ''lunch'', ''dinner'', ''snack'']"

text \<open>
  The nutrition object of \<^verbatim>\<open>mealSchema\<close> has the five fields calories, protein,
  carbohydrates, fat and fiber, each at least 0. Parsing drops every other key, and the
  entry schema gives an absent field its default 0.
\<close>

definition zod_nutrition_ok :: "INutrition \<Rightarrow> bool" where
  "zod_nutrition_ok n =
     (calories n \<ge> 0 \<and> protein n \<ge> 0 \<and> carbohydrates n \<ge> 0 \<and> fat n \<ge> 0 \<and> fiber n \<ge> 0)"

definition zod_nutrition :: "INutrition \<Rightarrow> INutrition" where
  "zod_nutrition n = n\<lparr>sugar := 0, sodium := 0, potassium := 0, calcium := 0, iron := 0\<rparr>"

definition zod_food_ok :: "FoodInput \<Rightarrow> bool" where
  "zod_food_ok f =
     (in_amount f \<ge> 0.1 \<and> zod_nutrition_ok (in_nutritionPer100g f)
      \<and> zod_nutrition_ok (in_actualNutrition f))"

definition zod_food :: "FoodInput \<Rightarrow> FoodInput" where
  "zod_food f =
     f\<lparr>in_nutritionPer100g := zod_nutrition (in_nutritionPer100g f),
       in_actualNutrition := zod_nutrition (in_actualNutrition f)\<rparr>"

text \<open>\<^verbatim>\<open>mealSchema.parse(body)\<close>: the validated data, or \<open>None\<close> for a ZodError.\<close>

definition mealSchema_parse :: "MealBody \<Rightarrow> MealBody option" where
  "mealSchema_parse body =
     (if body_mealType body \<in> set mealTypes \<and> list_all zod_food_ok (body_foods body)
      then Some (body\<lparr>body_foods := map zod_food (body_foods body)\<rparr>)
      else None)"

subsection \<open>Validation by the entry schema before a save\<close>

text \<open>
  The validators of the entry schema on the numbers, the enumerated strings and the
  lengths of the names, applied to the whole entry. The names are taken as already
  trimmed.
\<close>

definition units :: "string list" where
  "units = [''grams'', ''cups'', ''pieces'', ''tablespoons'', ''teaspoons'', ''ounces'',
            ''pounds'']"

definition nutrition_valid :: "INutrition \<Rightarrow> bool" where
  "nutrition_valid n =
     (calories n \<ge> 0 \<and> protein n \<ge> 0 \<and> carbohydrates n \<ge> 0 \<and> fat n \<ge> 0 \<and> fiber n \<ge> 0
      \<and> sugar n \<ge> 0 \<and> sodium n \<ge> 0 \<and> potassium n \<ge> 0 \<and> calcium n \<ge> 0 \<and> iron n \<ge> 0)"

definition food_valid :: "IFood \<Rightarrow> bool" where
  "food_valid f =
     (name f \<noteq> [] \<and> length (name f) \<le> 200 \<and> amount f \<ge> 0.1 \<and> amount f \<le> 10000
      \<and> unit f \<in> set units
      \<and> nutrition_valid (nutritionPer100g f) \<and> nutrition_valid (actualNutrition f))"

definition mealTotals_valid :: "MealTotals \<Rightarrow> bool" where
  "mealTotals_valid t =
     (total_calories t \<ge> 0 \<and> total_protein t \<ge> 0 \<and> total_carbohydrates t \<ge> 0
      \<and> total_fat t \<ge> 0 \<and> total_fiber t \<ge> 0)"

definition meal_valid :: "IMeal \<Rightarrow> bool" where
  "meal_valid m =
     (mealType m \<in> set mealTypes
      \<and> (case mealName m of None \<Rightarrow> True | Some n \<Rightarrow> length n \<le> 100)
      \<and> list_all food_valid (foods m) \<and> mealTotals_valid (mealTotals m))"

definition progress_valid :: "IGoalProgress \<Rightarrow> bool" where
  "progress_valid g = (target g \<ge> 0 \<and> actual g \<ge> 0 \<and> percentage g \<ge> 0)"

text \<open>\<open>now\<close> is the time of the save: a date in the future is refused.\<close>

definition entry_valid :: "int \<Rightarrow> IMealEntry \<Rightarrow> bool" where
  "entry_valid now e =
     (date e \<le> now \<and> list_all meal_valid (meals e) \<and> nutrition_valid (dailyTotals e)
      \<and> progress_valid (gp_calories (goalProgress e))
      \<and> progress_valid (gp_protein (goalProgress e))
      \<and> progress_valid (gp_carbohydrates (goalProgress e))
      \<and> progress_valid (gp_fat (goalProgress e)))"

subsection \<open>The handler of \<^verbatim>\<open>meals/index\<close>\<close>

record MealRequest =
  req_method :: string
  req_user :: "string option"
  req_body :: MealBody

text \<open>
  The collection of meal entries is a list; the position of an entry is its \<open>_id\<close>.
  The day of a date runs from \<open>startOfDay\<close> to \<open>endOfDay\<close>, taken in a local time
  that is UTC.
\<close>

definition startOfDay :: "int \<Rightarrow> int" where
  "startOfDay d = d - d mod 86400000"

definition endOfDay :: "int \<Rightarrow> int" where
  "endOfDay d = startOfDay d + 86399999"

fun findOne :: "IMealEntry list \<Rightarrow> string \<Rightarrow> int \<Rightarrow> nat \<Rightarrow> (nat \<times> IMealEntry) option" where
  "findOne [] uid d i = None"
| "findOne (e # es) uid d i =
     (if userId e = uid \<and> startOfDay d \<le> date e \<and> date e \<le> endOfDay d
      then Some (i, e) else findOne es uid d (Suc i))"

text \<open>\<^verbatim>\<open>xs.findIndex(p)\<close>: the first index that satisfies \<open>p\<close>, or \<open>-1\<close>.\<close>

fun findIndex :: "('a \<Rightarrow> bool) \<Rightarrow> 'a list \<Rightarrow> int" where
  "findIndex p [] = - 1"
| "findIndex p (x # xs) =
     (if p x then 0 else (let i = findIndex p xs in if i \<ge> 0 then i + 1 else - 1))"

definition newFood :: "int \<Rightarrow> FoodInput \<Rightarrow> IFood" where
  "newFood now food =
     \<lparr>spoonacularId = in_spoonacularId food,
      customFoodId = in_customFoodId food,
      name = in_name food,
      amount = in_amount food,
      unit = in_unit food,
      nutritionPer100g = in_nutritionPer100g food,
      actualNutrition = in_actualNutrition food,
      addedAt = now,
      isCustomFood = (case in_isCustomFood food of None \<Rightarrow> False | Some b \<Rightarrow> b)\<rparr>"

definition newMeal :: "int \<Rightarrow> MealBody \<Rightarrow> IMeal" where
  "newMeal now validatedData =
     \<lparr>mealType = body_mealType validatedData,
      mealName = body_mealName validatedData,
      foods = map (newFood now) (body_foods validatedData),
      mealTotals = \<lparr>total_calories = 0, total_protein = 0, total_carbohydrates = 0,
                    total_fat = 0, total_fiber = 0\<rparr>\<rparr>"

definition newMealEntry :: "string \<Rightarrow> MealBody \<Rightarrow> IMeal \<Rightarrow> IUserGoals \<Rightarrow> IMealEntry" where
  "newMealEntry uid validatedData meal goals =
     \<lparr>userId = uid,
      date = body_date validatedData,
      meals = [meal],
      dailyTotals = \<lparr>calories = 0, protein = 0, carbohydrates = 0, fat = 0, fiber = 0,
                     sugar = 0, sodium = 0, potassium = 0, calcium = 0, iron = 0\<rparr>,
      goalProgress =
        \<lparr>gp_calories = calculateGoalProgress 0 (dailyCalories goals),
         gp_protein = calculateGoalProgress 0 (target_protein (macroTargets goals)),
         gp_carbohydrates = calculateGoalProgress 0 (target_carbohydrates (macroTargets goals)),
         gp_fat = calculateGoalProgress 0 (target_fat (macroTargets goals))\<rparr>\<rparr>"

text \<open>
  The update of an existing entry: the meal is assigned at the index of the first meal of
  the same type, or pushed when there is none.
\<close>

definition putMeal :: "IMeal \<Rightarrow> IMeal list \<Rightarrow> IMeal list" where
  "putMeal meal ms =
     (let existingMealIndex = findIndex (\<lambda>m. mealType m = mealType meal) ms
      in if existingMealIndex \<ge> 0 then ms[nat existingMealIndex := meal] else ms @ [meal])"

definition save :: "IMealEntry list \<Rightarrow> nat \<Rightarrow> IMealEntry \<Rightarrow> IMealEntry list" where
  "save store i e = (if i < length store then store[i := e] else store @ [e])"

text \<open>
  \<open>users\<close> is \<^verbatim>\<open>User.findById\<close>, giving the goals of a user. The result is the
  response (the status and the saved entry, or the error) and the collection afterwards.
  An entry is saved twice, each time through validation and the hook: once with the new
  meal, and once more, read back, with the goal progress of its new daily totals.
\<close>

definition meal_handler ::
  "(string \<Rightarrow> IUserGoals option) \<Rightarrow> int \<Rightarrow> IMealEntry list \<Rightarrow> MealRequest \<Rightarrow>
   (error + nat \<times> IMealEntry) \<times> IMealEntry list"
where
  "meal_handler users now store req =
     (if req_method req \<notin> {''POST'', ''PUT''} then (Inl MethodNotAllowed, store)
      else case req_user req of
        None \<Rightarrow> (Inl NotAuthenticated, store)
      | Some uid \<Rightarrow>
         (case mealSchema_parse (req_body req) of
            None \<Rightarrow> (Inl ValidationFailed, store)
          | Some validatedData \<Rightarrow>
             (case users uid of
                None \<Rightarrow> (Inl UserNotFound, store)
              | Some goals \<Rightarrow>
                 (let meal = newMeal now validatedData;
                      (i, mealEntry) =
                        (case findOne store uid (body_date validatedData) 0 of
                           None \<Rightarrow> (length store, newMealEntry uid validatedData meal goals)
                         | Some (j, e) \<Rightarrow> (j, e\<lparr>meals := putMeal meal (meals e)\<rparr>))
                  in if \<not> entry_valid now mealEntry
                     then (Inl DatabaseValidationFailed, store)
                     else
                       (let store1 = save store i (pre_save mealEntry);
                            savedMealEntry =
                              (pre_save mealEntry)
                                \<lparr>goalProgress :=
                                   evaluateProgress (dailyTotals (pre_save mealEntry)) goals\<rparr>
                        in if \<not> entry_valid now savedMealEntry
                           then (Inl DatabaseValidationFailed, store1)
                           else (Inr (if req_method req = ''POST'' then 201 else 200,
                                      pre_save savedMealEntry),
                                 save store1 i (pre_save savedMealEntry)))))))"

text \<open>A sequence of requests, each on the collection the one before has left.\<close>

fun run_requests ::
  "(string \<Rightarrow> IUserGoals option) \<Rightarrow> int \<Rightarrow> IMealEntry list \<Rightarrow> MealRequest list \<Rightarrow>
   IMealEntry list"
where
  "run_requests users now store [] = store"
| "run_requests users now store (req # reqs) =
     run_requests users now (snd (meal_handler users now store req)) reqs"

section \<open>The scaling the specification describes\<close>

text \<open>
  Following the specification's words, not the source: every field of the reference record
  multiplied by \<open>amount / referenceAmount\<close>, the calories rounded to the nearest integer
  and every other field to one decimal place.
\<close>

definition spec_scale :: "INutrition \<Rightarrow> real \<Rightarrow> real \<Rightarrow> INutrition" where
  "spec_scale ref amt referenceAmount =
     (let k = amt / referenceAmount;
          r1 = (\<lambda>x. Math_round (x * k * 10) / 10)
      in \<lparr>calories = Math_round (calories ref * k),
          protein = r1 (protein ref),
          carbohydrates = r1 (carbohydrates ref),
          fat = r1 (fat ref),
          fiber = r1 (fiber ref),
          sugar = r1 (sugar ref),
          sodium = r1 (sodium ref),
          potassium = r1 (potassium ref),
          calcium = r1 (calcium ref),
          iron = r1 (iron ref)\<rparr>)"

section \<open>Rounded values\<close>




section \<open>Totals as sums\<close>



definition extended_zero :: "INutrition \<Rightarrow> bool" where
  "extended_zero n =
     (sugar n = 0 \<and> sodium n = 0 \<and> potassium n = 0 \<and> calcium n = 0 \<and> iron n = 0)"

section \<open>Example data\<close>

text \<open>
  A user with goals, foods as a client submits them, and requests for a breakfast on one
  day. \<open>unscaled_food\<close> is 150 grams of a food whose client sends the per-100g values as
  the actual nutrition. \<open>sugary_entry\<close> is an entry whose food and whose daily totals
  carry sugar, sodium, potassium, calcium and iron.
\<close>

definition example_goals :: IUserGoals where
  "example_goals =
     \<lparr>dailyCalories = 2000,
      macroTargets = \<lparr>target_protein = 150, target_carbohydrates = 250, target_fat = 65\<rparr>,
      macroPercentages = \<lparr>pct_protein = 30, pct_carbohydrates = 50, pct_fat = 29\<rparr>\<rparr>"

definition example_users :: "string \<Rightarrow> IUserGoals option" where
  "example_users uid = (if uid = ''alice'' then Some example_goals else None)"

definition example_food :: "real \<Rightarrow> FoodInput" where
  "example_food kcal =
     \<lparr>in_spoonacularId = Some 6, in_customFoodId = None, in_name = ''Oatmeal'',
      in_amount = 100, in_unit = ''grams'',
      in_nutritionPer100g =
        \<lparr>calories = kcal, protein = 10, carbohydrates = 50, fat = 5, fiber = 8, sugar = 0,
         sodium = 0, potassium = 0, calcium = 0, iron = 0\<rparr>,
      in_actualNutrition =
        \<lparr>calories = kcal, protein = 10, carbohydrates = 50, fat = 5, fiber = 8, sugar = 0,
         sodium = 0, potassium = 0, calcium = 0, iron = 0\<rparr>,
      in_isCustomFood = None\<rparr>"

definition unscaled_food :: FoodInput where
  "unscaled_food =
     \<lparr>in_spoonacularId = Some 1, in_customFoodId = None, in_name = ''Chicken Breast'',
      in_amount = 150, in_unit = ''grams'',
      in_nutritionPer100g =
        \<lparr>calories = 165, protein = 31, carbohydrates = 0, fat = 3.6, fiber = 0, sugar = 0,
         sodium = 0, potassium = 0, calcium = 0, iron = 0\<rparr>,
      in_actualNutrition =
        \<lparr>calories = 165, protein = 31, carbohydrates = 0, fat = 3.6, fiber = 0, sugar = 0,
         sodium = 0, potassium = 0, calcium = 0, iron = 0\<rparr>,
      in_isCustomFood = None\<rparr>"

definition breakfast_request :: "FoodInput list \<Rightarrow> MealRequest" where
  "breakfast_request fs =
     \<lparr>req_method = ''POST'', req_user = Some ''alice'',
      req_body = \<lparr>body_date = 1700000000000, body_mealType = ''breakfast'',
                  body_mealName = None, body_foods = fs\<rparr>\<rparr>"

definition sugary_entry :: IMealEntry where
  "sugary_entry =
     \<lparr>userId = ''alice'', date = 1700000000000,
      meals =
        [\<lparr>mealType = ''snack'', mealName = None,
          foods =
            [\<lparr>spoonacularId = Some 10, customFoodId = None, name = ''Banana'', amount = 100,
              unit = ''grams'',
              nutritionPer100g =
                \<lparr>calories = 89, protein = 1.1, carbohydrates = 23, fat = 0.3, fiber = 2.6,
                 sugar = 12, sodium = 1, potassium = 358, calcium = 5, iron = 0.3\<rparr>,
              actualNutrition =
                \<lparr>calories = 89, protein = 1.1, carbohydrates = 23, fat = 0.3, fiber = 2.6,
                 sugar = 12, sodium = 1, potassium = 358, calcium = 5, iron = 0.3\<rparr>,
              addedAt = 1700000000000, isCustomFood = False\<rparr>],
          mealTotals = \<lparr>total_calories = 0, total_protein = 0, total_carbohydrates = 0,
                        total_fat = 0, total_fiber = 0\<rparr>\<rparr>],
      dailyTotals =
        \<lparr>calories = 0, protein = 0, carbohydrates = 0, fat = 0, fiber = 0, sugar = 12,
         sodium = 1, potassium = 358, calcium = 5, iron = 0.3\<rparr>,
      goalProgress = evaluateProgress
        \<lparr>calories = 0, protein = 0, carbohydrates = 0, fat = 0, fiber = 0, sugar = 0,
         sodium = 0, potassium = 0, calcium = 0, iron = 0\<rparr> example_goals\<rparr>"



section \<open>Properties\<close>

subsection \<open>Rounding\<close>

lemma Math_round_int: "Math_round x \<in> \<int>"
  by (simp add: Math_round_def)

lemma Math_round_near: "\<bar>Math_round x - x\<bar> \<le> 1 / 2"
  unfolding Math_round_def by linarith




subsection \<open>Metabolic calculator\<close>

lemma get_property_multipliers:
  "get_property multipliers level =
     (if level = ''sedentary'' then NumV 1.2
      else if level = ''light'' then NumV 1.375
      else if level = ''moderate'' then NumV 1.55
      else if level = ''active'' then NumV 1.725
      else if level = ''very_active'' then NumV 1.9
      else if level \<in> set Object_prototype_names then ObjV else Undefined)"
  by (simp add: get_property_def multipliers_def)

text \<open>
  Claim C2, as the code has it. For male gender \<open>generateBMR\<close> is
  \<open>10 * weight + 6.25 * height - 5 * age + 5\<close>, on the weight in kilograms and the height
  in centimetres, rounded to the nearest integer; \<open>calculateBMR\<close> is the same expression,
  not rounded. For weight 75 kg, height 180 cm, age 34 and male gender both return 1710.
\<close>

theorem generateBMR_male:
  "(gender p = ''male'' \<longrightarrow>
      generateBMR thisYear p =
        Math_round (10 * weightKg p + 6.25 * heightCm p - 5 * of_int (thisYear - dateOfBirth p) + 5)
      \<and> generateBMR thisYear p \<in> \<int>
      \<and> \<bar>generateBMR thisYear p
          - (10 * weightKg p + 6.25 * heightCm p - 5 * of_int (thisYear - dateOfBirth p) + 5)\<bar>
        \<le> 1 / 2)
   \<and> calculateBMR w h age ''male'' = 10 * w + 6.25 * h - 5 * age + 5
   \<and> generateBMR 2024
        \<lparr>dateOfBirth = 1990, gender = ''male'', height = \<lparr>m_value = 180, m_unit = ''cm''\<rparr>,
         weight = \<lparr>m_value = 75, m_unit = ''kg''\<rparr>, activityLevel = ''moderate''\<rparr> = 1710
   \<and> calculateBMR 75 180 34 ''male'' = 1710"
proof -
  have a: "gender p = ''male'' \<Longrightarrow> generateBMR thisYear p =
        Math_round (10 * weightKg p + 6.25 * heightCm p - 5 * of_int (thisYear - dateOfBirth p) + 5)"
    by (simp add: generateBMR_def Let_def)
  have b: "generateBMR thisYear p \<in> \<int>"
    by (simp add: generateBMR_def Let_def Math_round_int)
  have c: "calculateBMR w h age ''male'' = 10 * w + 6.25 * h - 5 * age + 5"
    by (simp add: calculateBMR_def)
  have d: "generateBMR 2024
        \<lparr>dateOfBirth = 1990, gender = ''male'', height = \<lparr>m_value = 180, m_unit = ''cm''\<rparr>,
         weight = \<lparr>m_value = 75, m_unit = ''kg''\<rparr>, activityLevel = ''moderate''\<rparr> = 1710"
    by (simp add: generateBMR_def weightKg_def heightCm_def Math_round_def)
  have e: "calculateBMR 75 180 34 ''male'' = 1710"
    by (simp add: calculateBMR_def)
  show ?thesis
    using a b c d e Math_round_near by metis
qed

theorem generateBMR_male_witness:
  "gender \<lparr>dateOfBirth = 1990, gender = ''male'', height = \<lparr>m_value = 180, m_unit = ''cm''\<rparr>,
         weight = \<lparr>m_value = 75, m_unit = ''kg''\<rparr>, activityLevel = ''moderate''\<rparr> = ''male''
   \<and> generateBMR 2024
        \<lparr>dateOfBirth = 1990, gender = ''male'', height = \<lparr>m_value = 180, m_unit = ''cm''\<rparr>,
         weight = \<lparr>m_value = 75, m_unit = ''kg''\<rparr>, activityLevel = ''moderate''\<rparr>
       = Math_round (10 * 75 + 6.25 * 180 - 5 * 34 + 5)"
  using generateBMR_male [of "\<lparr>dateOfBirth = 1990, gender = ''male'',
         height = \<lparr>m_value = 180, m_unit = ''cm''\<rparr>,
         weight = \<lparr>m_value = 75, m_unit = ''kg''\<rparr>, activityLevel = ''moderate''\<rparr>" 2024]
  by (simp add: weightKg_def heightCm_def)

text \<open>The value 1650 that claim C2 gives for this input is not what the code returns.\<close>

theorem generateBMR_1650_counterexample:
  "generateBMR 2024
        \<lparr>dateOfBirth = 1990, gender = ''male'', height = \<lparr>m_value = 180, m_unit = ''cm''\<rparr>,
         weight = \<lparr>m_value = 75, m_unit = ''kg''\<rparr>, activityLevel = ''moderate''\<rparr> \<noteq> 1650"
  by (simp add: generateBMR_def weightKg_def heightCm_def Math_round_def)

text \<open>
  Claim C7, as the code has it. \<open>calculateTDEE\<close> returns \<open>round (bmr * multiplier)\<close>
  with the multipliers sedentary 1.2, light 1.375, moderate 1.55, active 1.725 and
  very\_active 1.9, and uses 1.2 for any other activity level that is not the name of a
  property inherited from \<^verbatim>\<open>Object.prototype\<close>. \<open>generateTDEE\<close> returns
  \<open>round (BMR * multiplier)\<close> for the five levels its type admits; it has no fallback, and
  for any other level its result is not a number.
\<close>

theorem TDEE_multipliers:
  "calculateTDEE bmr ''sedentary'' = Fin (Math_round (bmr * 1.2))
   \<and> calculateTDEE bmr ''light'' = Fin (Math_round (bmr * 1.375))
   \<and> calculateTDEE bmr ''moderate'' = Fin (Math_round (bmr * 1.55))
   \<and> calculateTDEE bmr ''active'' = Fin (Math_round (bmr * 1.725))
   \<and> calculateTDEE bmr ''very_active'' = Fin (Math_round (bmr * 1.9))
   \<and> (level \<notin> {''sedentary'', ''light'', ''moderate'', ''active'', ''very_active''} \<longrightarrow>
        level \<notin> set Object_prototype_names \<longrightarrow>
        calculateTDEE bmr level = Fin (Math_round (bmr * 1.2)))
   \<and> (activityLevel p = ''sedentary'' \<longrightarrow>
        generateTDEE thisYear p = Fin (Math_round (generateBMR thisYear p * 1.2)))
   \<and> (activityLevel p = ''light'' \<longrightarrow>
        generateTDEE thisYear p = Fin (Math_round (generateBMR thisYear p * 1.375)))
   \<and> (activityLevel p = ''moderate'' \<longrightarrow>
        generateTDEE thisYear p = Fin (Math_round (generateBMR thisYear p * 1.55)))
   \<and> (activityLevel p = ''active'' \<longrightarrow>
        generateTDEE thisYear p = Fin (Math_round (generateBMR thisYear p * 1.725)))
   \<and> (activityLevel p = ''very_active'' \<longrightarrow>
        generateTDEE thisYear p = Fin (Math_round (generateBMR thisYear p * 1.9)))
   \<and> (activityLevel p \<notin> {''sedentary'', ''light'', ''moderate'', ''active'', ''very_active''} \<longrightarrow>
        generateTDEE thisYear p = NaN)"
  by (simp add: calculateTDEE_def generateTDEE_def get_property_multipliers js_or_def Let_def)

theorem TDEE_multipliers_witness:
  "''extreme'' \<notin> {''sedentary'', ''light'', ''moderate'', ''active'', ''very_active''}
   \<and> ''extreme'' \<notin> set Object_prototype_names
   \<and> calculateTDEE 1710 ''extreme'' = Fin 2052
   \<and> activityLevel \<lparr>dateOfBirth = 1990, gender = ''male'',
         height = \<lparr>m_value = 180, m_unit = ''cm''\<rparr>,
         weight = \<lparr>m_value = 75, m_unit = ''kg''\<rparr>, activityLevel = ''moderate''\<rparr> = ''moderate''
   \<and> generateTDEE 2024 \<lparr>dateOfBirth = 1990, gender = ''male'',
         height = \<lparr>m_value = 180, m_unit = ''cm''\<rparr>,
         weight = \<lparr>m_value = 75, m_unit = ''kg''\<rparr>, activityLevel = ''moderate''\<rparr> = Fin 2651"
  using TDEE_multipliers [of 1710 "''extreme''" "\<lparr>dateOfBirth = 1990, gender = ''male'',
         height = \<lparr>m_value = 180, m_unit = ''cm''\<rparr>,
         weight = \<lparr>m_value = 75, m_unit = ''kg''\<rparr>, activityLevel = ''moderate''\<rparr>" 2024]
  by (simp add: Object_prototype_names_def generateBMR_def weightKg_def heightCm_def
      Math_round_def)

text \<open>
  Claim C7 as stated fails on \<open>generateTDEE\<close>: for a level outside the five, the result is
  not the basal rate times 1.2.
\<close>

theorem TDEE_fallback_counterexample:
  "generateTDEE 2024 \<lparr>dateOfBirth = 1990, gender = ''male'',
         height = \<lparr>m_value = 180, m_unit = ''cm''\<rparr>,
         weight = \<lparr>m_value = 75, m_unit = ''kg''\<rparr>, activityLevel = ''extreme''\<rparr>
   \<noteq> Fin (Math_round (generateBMR 2024 \<lparr>dateOfBirth = 1990, gender = ''male'',
         height = \<lparr>m_value = 180, m_unit = ''cm''\<rparr>,
         weight = \<lparr>m_value = 75, m_unit = ''kg''\<rparr>, activityLevel = ''extreme''\<rparr> * 1.2))"
  by (simp add: generateTDEE_def get_property_multipliers Object_prototype_names_def)

text \<open>
  In \<open>calculateTDEE\<close> a name inherited from \<^verbatim>\<open>Object.prototype\<close> is read as a
  value that is not \<^verbatim>\<open>undefined\<close>, so the fallback is not taken.
\<close>

lemma calculateTDEE_inherited_name: "calculateTDEE 1710 ''toString'' = NaN"
  by (simp add: calculateTDEE_def get_property_multipliers js_or_def
      Object_prototype_names_def)



subsection \<open>Nutrition scaler\<close>




subsection \<open>Food details\<close>




subsection \<open>Goal progress\<close>



subsection \<open>The hook before a save\<close>



lemma foldl_daily_totals:
  "extended_zero acc \<Longrightarrow>
   foldl (\<lambda>totals meal.
        \<lparr>calories = calories totals + total_calories (mealTotals meal),
         protein = protein totals + total_protein (mealTotals meal),
         carbohydrates = carbohydrates totals + total_carbohydrates (mealTotals meal),
         fat = fat totals + total_fat (mealTotals meal),
         fiber = fiber totals + total_fiber (mealTotals meal),
         sugar = num_or (sugar totals) 0,
         sodium = num_or (sodium totals) 0,
         potassium = num_or (potassium totals) 0,
         calcium = num_or (calcium totals) 0,
         iron = num_or (iron totals) 0\<rparr>) acc ms =
     \<lparr>calories = calories acc + sum_list (map (\<lambda>m. total_calories (mealTotals m)) ms),
      protein = protein acc + sum_list (map (\<lambda>m. total_protein (mealTotals m)) ms),
      carbohydrates =
        carbohydrates acc + sum_list (map (\<lambda>m. total_carbohydrates (mealTotals m)) ms),
      fat = fat acc + sum_list (map (\<lambda>m. total_fat (mealTotals m)) ms),
      fiber = fiber acc + sum_list (map (\<lambda>m. total_fiber (mealTotals m)) ms),
      sugar = 0, sodium = 0, potassium = 0, calcium = 0, iron = 0\<rparr>"
proof (induction ms arbitrary: acc)
  case Nil
  then show ?case by (simp add: extended_zero_def)
next
  case (Cons m ms)
  have "extended_zero
     \<lparr>calories = calories acc + total_calories (mealTotals m),
      protein = protein acc + total_protein (mealTotals m),
      carbohydrates = carbohydrates acc + total_carbohydrates (mealTotals m),
      fat = fat acc + total_fat (mealTotals m),
      fiber = fiber acc + total_fiber (mealTotals m),
      sugar = num_or (sugar acc) 0,
      sodium = num_or (sodium acc) 0,
      potassium = num_or (potassium acc) 0,
      calcium = num_or (calcium acc) 0,
      iron = num_or (iron acc) 0\<rparr>"
    using Cons.prems by (simp add: extended_zero_def num_or_def)
  from Cons.IH [OF this] show ?case
    by simp
qed

lemma calculatedDailyTotals_sum:
  "calculatedDailyTotals ms =
     \<lparr>calories = sum_list (map (\<lambda>m. total_calories (mealTotals m)) ms),
      protein = sum_list (map (\<lambda>m. total_protein (mealTotals m)) ms),
      carbohydrates = sum_list (map (\<lambda>m. total_carbohydrates (mealTotals m)) ms),
      fat = sum_list (map (\<lambda>m. total_fat (mealTotals m)) ms),
      fiber = sum_list (map (\<lambda>m. total_fiber (mealTotals m)) ms),
      sugar = 0, sodium = 0, potassium = 0, calcium = 0, iron = 0\<rparr>"
  unfolding calculatedDailyTotals_def
  by (subst foldl_daily_totals) (simp_all add: extended_zero_def)


lemma pre_save_extended_zero: "extended_zero (dailyTotals (pre_save e))"
  by (simp add: pre_save_def Let_def calculatedDailyTotals_sum extended_zero_def)

lemma pre_save_idem: "pre_save (pre_save e) = pre_save e"
  by (simp add: pre_save_def Let_def o_def)

subsection \<open>Replacing or adding a meal\<close>

lemma putMeal_Nil: "putMeal meal [] = [meal]"
  by (simp add: putMeal_def)

lemma putMeal_Cons:
  "putMeal meal (m # ms) =
     (if mealType m = mealType meal then meal # ms else m # putMeal meal ms)"
proof (cases "mealType m = mealType meal")
  case True
  then show ?thesis by (simp add: putMeal_def)
next
  case False
  show ?thesis
  proof (cases "0 \<le> findIndex (\<lambda>x. mealType x = mealType meal) ms")
    case True
    then have "nat (findIndex (\<lambda>x. mealType x = mealType meal) ms + 1) =
        Suc (nat (findIndex (\<lambda>x. mealType x = mealType meal) ms))"
      by simp
    with True False show ?thesis
      by (simp add: putMeal_def Let_def)
  next
    case neg: False
    with False show ?thesis
      by (simp add: putMeal_def Let_def)
  qed
qed




subsection \<open>The meal handler\<close>

lemmas ex_defs = example_goals_def example_users_def example_food_def unscaled_food_def
  breakfast_request_def meal_handler_def mealSchema_parse_def zod_food_ok_def zod_food_def
  zod_nutrition_ok_def zod_nutrition_def mealTypes_def units_def newMeal_def newFood_def
  newMealEntry_def entry_valid_def meal_valid_def food_valid_def nutrition_valid_def
  mealTotals_valid_def progress_valid_def pre_save_def calculatedTotals_def
  calculatedDailyTotals_def num_or_def evaluateProgress_def calculateGoalProgress_def
  Math_round_def save_def startOfDay_def endOfDay_def Let_def

lemma findOne_some:
  "findOne store uid d i = Some (j, e) \<Longrightarrow> i \<le> j \<and> j - i < length store \<and> store ! (j - i) = e"
proof (induction store arbitrary: i)
  case Nil
  then show ?case by simp
next
  case (Cons x xs)
  show ?case
  proof (cases "userId x = uid \<and> startOfDay d \<le> date x \<and> date x \<le> endOfDay d")
    case True
    with Cons.prems show ?thesis by simp
  next
    case False
    with Cons.prems have "findOne xs uid d (Suc i) = Some (j, e)" by auto
    from Cons.IH [OF this] show ?thesis
      by (auto simp: Suc_diff_le)
  qed
qed

lemma findOne_member: "findOne store uid d 0 = Some (j, e) \<Longrightarrow> e \<in> set store"
  using findOne_some [of store uid d 0 j e] by auto

lemma list_all_save: "list_all P store \<Longrightarrow> P e \<Longrightarrow> list_all P (save store i e)"
  by (auto simp: save_def list_all_iff dest: set_update_subset_insert [THEN subsetD])

lemma meal_handler_invariant:
  assumes inv: "list_all P store"
    and new: "\<And>uid vd goals. P (pre_save (newMealEntry uid vd (newMeal now vd) goals))"
    and upd: "\<And>e vd. P e \<Longrightarrow> P (pre_save (e\<lparr>meals := putMeal (newMeal now vd) (meals e)\<rparr>))"
    and gp: "\<And>e g. P (pre_save e) \<Longrightarrow> P (pre_save ((pre_save e)\<lparr>goalProgress := g\<rparr>))"
  shows "list_all P (snd (meal_handler users now store req))"
proof -
  have found: "P (pre_save (e\<lparr>meals := putMeal (newMeal now vd) (meals e)\<rparr>))"
    if "findOne store uid d 0 = Some (j, e)" for uid d j e vd
  proof -
    from that have "e \<in> set store" by (rule findOne_member)
    with inv have "P e" by (simp add: list_all_iff)
    then show ?thesis by (rule upd)
  qed
  show ?thesis
    unfolding meal_handler_def
    by (auto simp: Let_def inv split: option.splits prod.splits
        intro!: list_all_save gp new found)
qed

lemma run_requests_invariant:
  assumes new: "\<And>uid vd goals. P (pre_save (newMealEntry uid vd (newMeal now vd) goals))"
    and upd: "\<And>e vd. P e \<Longrightarrow> P (pre_save (e\<lparr>meals := putMeal (newMeal now vd) (meals e)\<rparr>))"
    and gp: "\<And>e g. P (pre_save e) \<Longrightarrow> P (pre_save ((pre_save e)\<lparr>goalProgress := g\<rparr>))"
  shows "list_all P store \<Longrightarrow> list_all P (run_requests users now store reqs)"
proof (induction reqs arbitrary: store)
  case Nil
  then show ?case by simp
next
  case (Cons req reqs)
  from Cons.prems have "list_all P (snd (meal_handler users now store req))"
    by (rule meal_handler_invariant) (fact new upd gp)+
  then show ?case by (simp add: Cons.IH)
qed


lemma putMeal_member: "meal \<in> set (putMeal meal ms)"
  by (induction ms) (simp_all add: putMeal_Nil putMeal_Cons)

lemma mealSchema_parse_Some:
  "mealSchema_parse body = Some vd \<Longrightarrow>
   body_mealType vd = body_mealType body \<and> body_foods vd = map zod_food (body_foods body)"
  by (auto simp: mealSchema_parse_def split: if_splits)

lemma pre_save_goalProgress:
  "pre_save ((pre_save e)\<lparr>goalProgress := g\<rparr>) = (pre_save e)\<lparr>goalProgress := g\<rparr>"
  by (simp add: pre_save_def Let_def o_def)

lemma meal_handler_saved:
  assumes "meal_handler users now store req = (Inr (status, saved), store')"
  shows "\<exists>uid vd goals entry.
           req_user req = Some uid \<and> mealSchema_parse (req_body req) = Some vd
           \<and> users uid = Some goals
           \<and> (entry = newMealEntry uid vd (newMeal now vd) goals
                \<or> (\<exists>j e. findOne store uid (body_date vd) 0 = Some (j, e)
                      \<and> entry = e\<lparr>meals := putMeal (newMeal now vd) (meals e)\<rparr>))
           \<and> saved = (pre_save entry)
                \<lparr>goalProgress := evaluateProgress (dailyTotals (pre_save entry)) goals\<rparr>"
  using assms unfolding meal_handler_def
  by (auto simp: Let_def pre_save_goalProgress
      split: option.splits prod.splits if_splits)

lemma meal_handler_newMeal:
  assumes "meal_handler users now store req = (Inr (status, saved), store')"
  shows "\<exists>vd entry. mealSchema_parse (req_body req) = Some vd
           \<and> newMeal now vd \<in> set (meals entry)
           \<and> meals saved = meals (pre_save entry)
           \<and> dailyTotals saved = dailyTotals (pre_save entry)"
proof -
  from meal_handler_saved [OF assms] obtain uid vd goals entry where
    vd: "mealSchema_parse (req_body req) = Some vd"
    and entry: "entry = newMealEntry uid vd (newMeal now vd) goals
                \<or> (\<exists>j e. findOne store uid (body_date vd) 0 = Some (j, e)
                      \<and> entry = e\<lparr>meals := putMeal (newMeal now vd) (meals e)\<rparr>)"
    and saved: "saved = (pre_save entry)
                \<lparr>goalProgress := evaluateProgress (dailyTotals (pre_save entry)) goals\<rparr>"
    by blast
  from entry have "newMeal now vd \<in> set (meals entry)"
    by (auto simp: newMealEntry_def putMeal_member)
  with vd saved show ?thesis by auto
qed




text \<open>
  Claim C10. After the hook the sugar, sodium, potassium, calcium and iron of the daily
  totals are 0, whatever the foods carry: so for every entry in the collection after any
  sequence of requests, and for \<open>sugary_entry\<close>, whose food has 12 of sugar.
\<close>

theorem extended_totals_zero:
  "extended_zero (dailyTotals (pre_save e))
   \<and> list_all (\<lambda>e. extended_zero (dailyTotals e)) (run_requests users now [] reqs)
   \<and> dailyTotals (pre_save sugary_entry) =
       \<lparr>calories = 89, protein = 1.1, carbohydrates = 23, fat = 0.3, fiber = 2.6, sugar = 0,
        sodium = 0, potassium = 0, calcium = 0, iron = 0\<rparr>"
proof -
  have a: "extended_zero (dailyTotals (pre_save e))" for e
    by (rule pre_save_extended_zero)
  have b: "list_all (\<lambda>e. extended_zero (dailyTotals e)) (run_requests users now [] reqs)"
    by (rule run_requests_invariant) (simp_all add: a pre_save_goalProgress)
  have c: "dailyTotals (pre_save sugary_entry) =
       \<lparr>calories = 89, protein = 1.1, carbohydrates = 23, fat = 0.3, fiber = 2.6, sugar = 0,
        sodium = 0, potassium = 0, calcium = 0, iron = 0\<rparr>"
    by (simp add: sugary_entry_def pre_save_def calculatedTotals_def calculatedDailyTotals_def
        num_or_def)
  from a b c show ?thesis by blast
qed

theorem extended_totals_zero_witness:
  "map sugar (map actualNutrition (foods (hd (meals sugary_entry)))) = [12]
   \<and> sugar (dailyTotals (pre_save sugary_entry)) = 0
   \<and> sodium (dailyTotals (pre_save sugary_entry)) = 0
   \<and> potassium (dailyTotals (pre_save sugary_entry)) = 0
   \<and> calcium (dailyTotals (pre_save sugary_entry)) = 0
   \<and> iron (dailyTotals (pre_save sugary_entry)) = 0"
  using extended_totals_zero [of sugary_entry]
  by (simp add: extended_zero_def) (simp add: sugary_entry_def)



text \<open>
  Claim C9, as the code has it. The foods the handler stores for the submitted meal carry
  the actual nutrition, the per-100g nutrition and the amount the client has sent (of a
  nutrition record the calories, protein, carbohydrates, fat and fiber, each at least 0);
  the actual nutrition is not computed from the per-100g nutrition and the amount.
\<close>

theorem stored_actualNutrition_is_client_supplied:
  "meal_handler users now store req = (Inr (status, saved), store') \<longrightarrow>
     (\<exists>m \<in> set (meals saved).
        mealType m = body_mealType (req_body req)
        \<and> map actualNutrition (foods m) =
            map (\<lambda>f. zod_nutrition (in_actualNutrition f)) (body_foods (req_body req))
        \<and> map nutritionPer100g (foods m) =
            map (\<lambda>f. zod_nutrition (in_nutritionPer100g f)) (body_foods (req_body req))
        \<and> map amount (foods m) = map in_amount (body_foods (req_body req)))"
proof
  assume h: "meal_handler users now store req = (Inr (status, saved), store')"
  from meal_handler_newMeal [OF h] obtain vd entry where
    vd: "mealSchema_parse (req_body req) = Some vd"
    and mem: "newMeal now vd \<in> set (meals entry)"
    and ms: "meals saved = meals (pre_save entry)"
    by blast
  let ?m = "(newMeal now vd)\<lparr>mealTotals := calculatedTotals (foods (newMeal now vd))\<rparr>"
  from mem ms have "?m \<in> set (meals saved)"
    by (auto simp: pre_save_def Let_def)
  moreover from mealSchema_parse_Some [OF vd]
  have "mealType ?m = body_mealType (req_body req)"
    and "map actualNutrition (foods ?m) =
            map (\<lambda>f. zod_nutrition (in_actualNutrition f)) (body_foods (req_body req))"
    and "map nutritionPer100g (foods ?m) =
            map (\<lambda>f. zod_nutrition (in_nutritionPer100g f)) (body_foods (req_body req))"
    and "map amount (foods ?m) = map in_amount (body_foods (req_body req))"
    by (simp_all add: newMeal_def newFood_def zod_food_def o_def)
  ultimately show "\<exists>m \<in> set (meals saved).
        mealType m = body_mealType (req_body req)
        \<and> map actualNutrition (foods m) =
            map (\<lambda>f. zod_nutrition (in_actualNutrition f)) (body_foods (req_body req))
        \<and> map nutritionPer100g (foods m) =
            map (\<lambda>f. zod_nutrition (in_nutritionPer100g f)) (body_foods (req_body req))
        \<and> map amount (foods m) = map in_amount (body_foods (req_body req))"
    by blast
qed

theorem stored_actualNutrition_is_client_supplied_witness:
  "\<exists>saved store'.
     meal_handler example_users 1700000100000 [] (breakfast_request [unscaled_food])
       = (Inr (201, saved), store')
     \<and> (\<exists>m \<in> set (meals saved).
          map actualNutrition (foods m) = [zod_nutrition (in_actualNutrition unscaled_food)])"
proof -
  have "\<exists>saved store'.
     meal_handler example_users 1700000100000 [] (breakfast_request [unscaled_food])
       = (Inr (201, saved), store')"
    by (simp add: ex_defs)
  then obtain saved store' where
    h: "meal_handler example_users 1700000100000 [] (breakfast_request [unscaled_food])
       = (Inr (201, saved), store')"
    by blast
  from stored_actualNutrition_is_client_supplied [of example_users 1700000100000 "[]"
      "breakfast_request [unscaled_food]" 201 saved store'] h
  obtain m where m: "m \<in> set (meals saved)"
    and an: "map actualNutrition (foods m) =
        map (\<lambda>f. zod_nutrition (in_actualNutrition f))
          (body_foods (req_body (breakfast_request [unscaled_food])))"
    by blast
  from an have "map actualNutrition (foods m) = [zod_nutrition (in_actualNutrition unscaled_food)]"
    by (simp add: breakfast_request_def)
  with m have "\<exists>m \<in> set (meals saved).
      map actualNutrition (foods m) = [zod_nutrition (in_actualNutrition unscaled_food)]"
    by (rule rev_bexI)
  with h show ?thesis
    by (intro exI conjI)
qed

text \<open>
  Claim C9 as stated fails: 150 grams of a food with 165 kcal per 100g, sent with the
  actual nutrition 165 kcal, are stored with 165 kcal, where scaling gives 248.
\<close>

theorem actualNutrition_not_scaled_counterexample:
  "map_sum id fst (fst (meal_handler example_users 1700000100000 []
       (breakfast_request [unscaled_food]))) = Inr 201
   \<and> map (map (map actualNutrition \<circ> foods) \<circ> meals)
       (snd (meal_handler example_users 1700000100000 [] (breakfast_request [unscaled_food])))
     = [[[\<lparr>calories = 165, protein = 31, carbohydrates = 0, fat = 3.6, fiber = 0, sugar = 0,
           sodium = 0, potassium = 0, calcium = 0, iron = 0\<rparr>]]]
   \<and> map (map (map nutritionPer100g \<circ> foods) \<circ> meals)
       (snd (meal_handler example_users 1700000100000 [] (breakfast_request [unscaled_food])))
     = [[[\<lparr>calories = 165, protein = 31, carbohydrates = 0, fat = 3.6, fiber = 0, sugar = 0,
           sodium = 0, potassium = 0, calcium = 0, iron = 0\<rparr>]]]
   \<and> map (map (map amount \<circ> foods) \<circ> meals)
       (snd (meal_handler example_users 1700000100000 [] (breakfast_request [unscaled_food])))
     = [[[150]]]
   \<and> spec_scale \<lparr>calories = 165, protein = 31, carbohydrates = 0, fat = 3.6, fiber = 0,
         sugar = 0, sodium = 0, potassium = 0, calcium = 0, iron = 0\<rparr> 150 100
     = \<lparr>calories = 248, protein = 46.5, carbohydrates = 0, fat = 5.4, fiber = 0, sugar = 0,
         sodium = 0, potassium = 0, calcium = 0, iron = 0\<rparr>"
  by (simp add: ex_defs spec_scale_def)

end
